theory Spec2Isabelle
  imports Main
begin

section \<open>JavaScript values and objects\<close>

text \<open>
  The preferences store is JavaScript: its instance is an object whose properties are
  read and written by computed key (\<^verbatim>\<open>this[key] = store[key]\<close>), so the model keeps
  the instance as a property list rather than as a fixed record. Values are modelled by
  their contents. A function is known by its reference only (\<open>JFun\<close>); two function
  values are the same handler exactly when their references are equal.
\<close>

datatype jsval =
    JUndefined
  | JNull
  | JBool bool
  | JNum int
  | JStr string
  | JFun nat
  | JArr "jsval list"
  | JObj "(string \<times> jsval) list"

type_synonym jsobj = "(string \<times> jsval) list"

text \<open>\<^verbatim>\<open>obj[key]\<close>: a property that is not there reads as \<^verbatim>\<open>undefined\<close>.\<close>

definition jsget :: "jsobj \<Rightarrow> string \<Rightarrow> jsval" where
  "jsget obj key = (case map_of obj key of None \<Rightarrow> JUndefined | Some v \<Rightarrow> v)"

text \<open>
  The keys of an object are enumerated with the array indices first (the canonical
  decimal numerals below \<open>2\<^sup>3\<^sup>2 - 1\<close>), in ascending order, and the other keys after them
  in the order in which they were added.
\<close>

definition index_value :: "string \<Rightarrow> int" where
  "index_value key = fold (\<lambda>c n. 10 * n + (int (of_char c) - 48)) key 0"

definition is_array_index :: "string \<Rightarrow> bool" where
  "is_array_index key =
     (key \<noteq> [] \<and> list_all (\<lambda>c. c \<in> set ''0123456789'') key
      \<and> (key = ''0'' \<or> hd key \<noteq> CHR ''0'')
      \<and> index_value key < 4294967295)"

definition enumerated_before :: "string \<Rightarrow> string \<Rightarrow> bool" where
  "enumerated_before key k =
     (is_array_index key \<and> (\<not> is_array_index k \<or> index_value key < index_value k))"

text \<open>
  \<^verbatim>\<open>obj[key] = v\<close> on an object whose properties are data properties: an existing
  property keeps its place, a new one takes its place in the enumeration. The key
  \<^verbatim>\<open>__proto__\<close> is no such property (assigning it sets the prototype of the object and
  adds no key): what is proved below about the keys that an assignment adds to the
  instance leaves that key out.
\<close>

fun jsset :: "jsobj \<Rightarrow> string \<Rightarrow> jsval \<Rightarrow> jsobj" where
  "jsset [] key v = [(key, v)]"
| "jsset ((k, w) # obj) key v =
     (if k = key then (key, v) # obj
      else if enumerated_before key k then (key, v) # (k, w) # obj
      else (k, w) # jsset obj key v)"

definition Object_keys :: "jsobj \<Rightarrow> string list" where
  "Object_keys obj = map fst obj"

text \<open>JavaScript truthiness, as used by \<^verbatim>\<open>v && ...\<close> and \<^verbatim>\<open>!x\<close>.\<close>

fun truthy :: "jsval \<Rightarrow> bool" where
  "truthy JUndefined = False"
| "truthy JNull = False"
| "truthy (JBool b) = b"
| "truthy (JNum n) = (n \<noteq> 0)"
| "truthy (JStr u) = (u \<noteq> [])"
| "truthy (JFun f) = True"
| "truthy (JArr xs) = True"
| "truthy (JObj ps) = True"

text \<open>\<^verbatim>\<open>array.find(p)\<close> gives the first element that satisfies \<open>p\<close>, or \<^verbatim>\<open>undefined\<close>.\<close>

definition array_find :: "(jsval \<Rightarrow> bool) \<Rightarrow> jsval list \<Rightarrow> jsval" where
  "array_find p xs = (case List.find p xs of None \<Rightarrow> JUndefined | Some x \<Rightarrow> x)"

text \<open>\<^verbatim>\<open>array.findIndex(p)\<close> gives the first index whose element satisfies \<open>p\<close>, or -1.\<close>

fun findIndex :: "(jsval \<Rightarrow> bool) \<Rightarrow> jsval list \<Rightarrow> int" where
  "findIndex p [] = - 1"
| "findIndex p (x # xs) =
     (if p x then 0 else (let i = findIndex p xs in if i < 0 then - 1 else i + 1))"

text \<open>\<^verbatim>\<open>array.splice(idx, 1)\<close> for an index inside the array.\<close>

definition splice1 :: "nat \<Rightarrow> jsval list \<Rightarrow> jsval list" where
  "splice1 idx xs = take idx xs @ drop (Suc idx) xs"

text \<open>
  \<^verbatim>\<open>keys.forEach((key) => (target[key] = source[key]))\<close>: the loop shared by
  \<^verbatim>\<open>reset\<close>, \<^verbatim>\<open>fromStore\<close> and (as a \<^verbatim>\<open>reduce\<close>) \<^verbatim>\<open>toJSON\<close>.
\<close>

definition assign_each :: "string list \<Rightarrow> jsobj \<Rightarrow> jsobj \<Rightarrow> jsobj" where
  "assign_each keys source target =
     fold (\<lambda>key tgt. jsset tgt key (jsget source key)) keys target"

section \<open>The mobx library\<close>

text \<open>
  The class uses mobx, which is a dependency and not part of the sources, in two places:
  the \<^verbatim>\<open>@observable\<close> decorators of the five fields, and \<^verbatim>\<open>toJS\<close> with an options
  argument. What they do depends on the mobx that is loaded. The source is written
  against the API of mobx 4 and 5: there a decorated field is an accessor of the
  prototype and becomes an own property of the instance only when a decorated field is
  first used, and \<^verbatim>\<open>toJS(x, { recurseEverything: true })\<close> returns a deep clone.
  \<^verbatim>\<open>package.json\<close> names mobx 6: there (with the Babel decorators of the same file) a
  decorated field is an own data property from construction on, \<^verbatim>\<open>toJS\<close> takes no
  options, and its development build throws when it is given some, while its production
  build ignores them.
\<close>

datatype mobx = Mobx5 | Mobx6_development | Mobx6_production

fun defines_fields_at_construction :: "mobx \<Rightarrow> bool" where
  "defines_fields_at_construction Mobx5 = False"
| "defines_fields_at_construction Mobx6_development = True"
| "defines_fields_at_construction Mobx6_production = True"

datatype js_error = TypeError | Error string

text \<open>The copy that \<^verbatim>\<open>toJS\<close> returns. Values are modelled by their contents, so a copy
  has the contents of the original; whether it shares a reference with the original is
  not expressed.\<close>

primrec copy_of :: "jsval \<Rightarrow> jsval" where
  "copy_of JUndefined = JUndefined"
| "copy_of JNull = JNull"
| "copy_of (JBool b) = JBool b"
| "copy_of (JNum n) = JNum n"
| "copy_of (JStr u) = JStr u"
| "copy_of (JFun f) = JFun f"
| "copy_of (JArr xs) = JArr (map copy_of xs)"
| "copy_of (JObj ps) = JObj (map (map_prod id copy_of) ps)"

text \<open>\<^verbatim>\<open>toJS(x, { recurseEverything: true })\<close>.\<close>

fun toJS :: "mobx \<Rightarrow> jsval \<Rightarrow> js_error + jsval" where
  "toJS Mobx5 x = Inr (copy_of x)"
| "toJS Mobx6_development x = Inl (Error ''[MobX] toJS no longer supports options'')"
| "toJS Mobx6_production x = Inr (copy_of x)"

section \<open>The RTV.js typeset of the preferences\<close>

text \<open>
  The typeset is checked by the RTV.js library (\<^verbatim>\<open>rtv.check\<close>), which is a dependency
  and not part of the sources. Its documented rules for what the typeset uses are:
  the qualifier \<^verbatim>\<open>EXPECTED\<close> permits \<^verbatim>\<open>null\<close> but not \<^verbatim>\<open>undefined\<close> (so a property of
  a shape has to be there), \<^verbatim>\<open>REQUIRED\<close> permits neither, \<^verbatim>\<open>OPTIONAL\<close> permits both and
  \<^verbatim>\<open>TRUTHY\<close> permits every falsy value; \<^verbatim>\<open>STRING\<close> accepts string primitives (the empty
  string too, unless the qualifier is \<^verbatim>\<open>REQUIRED\<close>), \<^verbatim>\<open>BOOLEAN\<close> accepts boolean
  primitives; a custom validator runs once the value has matched and fails the check by
  throwing; a shape does not reject properties it does not name.
\<close>

datatype qualifier = REQUIRED | EXPECTED | OPTIONAL | TRUTHY

datatype rtv_type = STRING | BOOLEAN

type_synonym typeset = "qualifier \<times> rtv_type \<times> (jsval \<Rightarrow> string option) option"

text \<open>The outcome of a check: success, or the path that failed and the validator's error.\<close>

datatype rtv_result = RtvSuccess | RtvError string "string option"

fun valid :: "rtv_result \<Rightarrow> bool" where
  "valid RtvSuccess = True"
| "valid (RtvError path cause) = False"

fun valuePermitted :: "jsval \<Rightarrow> qualifier \<Rightarrow> bool" where
  "valuePermitted v REQUIRED = False"
| "valuePermitted v EXPECTED = (v = JNull)"
| "valuePermitted v OPTIONAL = (v = JUndefined \<or> v = JNull)"
| "valuePermitted v TRUTHY = (\<not> truthy v)"

fun matches_type :: "qualifier \<Rightarrow> rtv_type \<Rightarrow> jsval \<Rightarrow> bool" where
  "matches_type q STRING (JStr u) = (q \<noteq> REQUIRED \<or> u \<noteq> [])"
| "matches_type q BOOLEAN (JBool b) = True"
| "matches_type q t v = False"

text \<open>\<^verbatim>\<open>v.match(/\/$/)\<close> on a string: without the multiline flag, \<^verbatim>\<open>$\<close> is the end of input.\<close>

definition match_trailing_slash :: "string \<Rightarrow> bool" where
  "match_trailing_slash u = (u \<noteq> [] \<and> last u = CHR ''/'')"

text \<open>
  The validator of \<^verbatim>\<open>cloudUrl\<close>: \<^verbatim>\<open>if (v && v.match(/\/$/)) throw new Error(...)\<close>.
  \<open>Some\<close> is the message of the error thrown; a truthy value that is not a string has
  no \<^verbatim>\<open>match\<close> method, and calling it throws as well.
\<close>

definition cloudUrl_validator :: "jsval \<Rightarrow> string option" where
  "cloudUrl_validator v =
     (if truthy v then
        (case v of
           JStr u \<Rightarrow>
             if match_trailing_slash u then Some ''cloudUrl must not end with a slash''
             else None
         | _ \<Rightarrow> Some ''v.match is not a function'')
      else None)"

definition preferencesTs :: "(string \<times> typeset) list" where
  "preferencesTs =
     [(''cloudUrl'', (EXPECTED, STRING, Some cloudUrl_validator)),
      (''username'', (EXPECTED, STRING, None)),
      (''savePath'', (EXPECTED, STRING, None)),
      (''offline'', (EXPECTED, BOOLEAN, None)),
      (''addToNew'', (EXPECTED, BOOLEAN, None))]"

fun check_typeset :: "string \<Rightarrow> typeset \<Rightarrow> jsval \<Rightarrow> rtv_result" where
  "check_typeset path (q, t, validator) v =
     (if valuePermitted v q \<or> matches_type q t v then
        (case validator of
           None \<Rightarrow> RtvSuccess
         | Some f \<Rightarrow> (case f v of None \<Rightarrow> RtvSuccess | Some msg \<Rightarrow> RtvError path (Some msg)))
      else RtvError path None)"

text \<open>A shape: every property it names is checked, in order; the first failure is reported.\<close>

fun check_shape :: "string \<Rightarrow> (string \<times> typeset) list \<Rightarrow> jsobj \<Rightarrow> rtv_result" where
  "check_shape path [] obj = RtvSuccess"
| "check_shape path ((key, ts) # shape) obj =
     (case check_typeset (path @ ''/'' @ key) ts (jsget obj key) of
        RtvSuccess \<Rightarrow> check_shape path shape obj
      | RtvError p cause \<Rightarrow> RtvError p cause)"

text \<open>
  \<^verbatim>\<open>rtv.check({ store }, { store: preferencesTs })\<close>: the value under \<^verbatim>\<open>store\<close> has to be
  an object (a shape is \<^verbatim>\<open>REQUIRED\<close>), and then has to have the shape.
\<close>

definition rtv_check :: "jsval \<Rightarrow> rtv_result" where
  "rtv_check store =
     (case store of
        JObj obj \<Rightarrow> check_shape ''/store'' preferencesTs obj
      | _ \<Rightarrow> RtvError ''/store'' None)"

section \<open>The preferences store\<close>

text \<open>
  The state of the module: the static \<^verbatim>\<open>PreferencesStore.defaultSavePath\<close>, the own
  enumerable properties of the singleton instance (\<^verbatim>\<open>this\<close>), the calls made to
  \<^verbatim>\<open>logger.error\<close> (component and the check result whose message is logged), and the
  functions called, in order. A handler is opaque: calling it is recorded, and it
  returns without an effect on the store. The methods of the class are not properties of
  the model, so a raw map is taken not to use their names as keys.
\<close>

record store =
  defaultSavePath :: jsval
  this :: jsobj
  logged :: "(string \<times> rtv_result) list"
  invoked :: "nat list"

text \<open>A method returns, or throws; what it did to the store before throwing stays done.\<close>

datatype outcome = Returns store | Throws js_error store

fun state_of :: "outcome \<Rightarrow> store" where
  "state_of (Returns s) = s"
| "state_of (Throws e s) = s"

text \<open>
  \<^verbatim>\<open>static getDefaults()\<close>: an object literal; of the state it reads the static
  \<^verbatim>\<open>defaultSavePath\<close> only, and nothing of an instance.
\<close>

definition getDefaults :: "jsval \<Rightarrow> jsobj" where
  "getDefaults staticDefaultSavePath =
     [(''cloudUrl'', JNull),
      (''username'', JNull),
      (''savePath'', staticDefaultSavePath),
      (''offline'', JBool False),
      (''addToNew'', JBool True)]"

text \<open>
  Construction. \<open>base\<close> is what the constructor of the base class
  (\<^verbatim>\<open>Store.ExtensionStore\<close>, not part of the sources) leaves on the instance; the fields
  declared by the class are then defined in the order of their declaration:
  \<^verbatim>\<open>updateHandlers = []\<close> always, and the five decorated fields, without an initial
  value, when the mobx that is loaded defines them at construction. When it does not, a
  field that is not yet an own property reads as \<^verbatim>\<open>undefined\<close> and becomes one when it is
  assigned.
\<close>

definition new_instance :: "mobx \<Rightarrow> jsobj \<Rightarrow> jsobj" where
  "new_instance mobx base =
     (let withHandlers = jsset base ''updateHandlers'' (JArr [])
      in if defines_fields_at_construction mobx then
           jsset (jsset (jsset (jsset (jsset withHandlers
             ''cloudUrl'' JUndefined)
             ''username'' JUndefined)
             ''savePath'' JUndefined)
             ''offline'' JUndefined)
             ''addToNew'' JUndefined
         else withHandlers)"

text \<open>
  Loading the module: \<^verbatim>\<open>static defaultSavePath = null\<close>, and the singleton is made at
  once (\<^verbatim>\<open>export const prefStore = PreferencesStore.getInstance()\<close>).
\<close>

definition module_init :: "mobx \<Rightarrow> jsobj \<Rightarrow> store" where
  "module_init mobx base =
     \<lparr>defaultSavePath = JNull, this = new_instance mobx base, logged = [], invoked = []\<rparr>"

text \<open>\<^verbatim>\<open>reset()\<close>: every own key of the instance is assigned what the defaults have for it.\<close>

definition reset :: "store \<Rightarrow> store" where
  "reset s =
     (let defaults = getDefaults (defaultSavePath s)
      in s\<lparr>this := assign_each (Object_keys (this s)) defaults (this s)\<rparr>)"

text \<open>\<^verbatim>\<open>handlers.forEach((h) => h())\<close>: calling something that is not a function throws.\<close>

fun call_each :: "jsval list \<Rightarrow> store \<Rightarrow> outcome" where
  "call_each [] s = Returns s"
| "call_each (JFun f # hs) s = call_each hs (s\<lparr>invoked := invoked s @ [f]\<rparr>)"
| "call_each (h # hs) s = Throws TypeError s"

text \<open>
  \<^verbatim>\<open>this.updateHandlers.forEach(...)\<close>: only an array has the method; on
  \<^verbatim>\<open>undefined\<close>, \<^verbatim>\<open>null\<close> or any other value the call throws a TypeError.
\<close>

definition call_updateHandlers :: "store \<Rightarrow> outcome" where
  "call_updateHandlers s =
     (case jsget (this s) ''updateHandlers'' of
        JArr hs \<Rightarrow> call_each hs s
      | _ \<Rightarrow> Throws TypeError s)"

text \<open>
  \<^verbatim>\<open>fromStore(store)\<close>. A store that passed the check is an object, so the last case
  (\<^verbatim>\<open>Object.keys\<close> of something else) does not occur.
\<close>

definition fromStore :: "store \<Rightarrow> jsval \<Rightarrow> outcome" where
  "fromStore s store =
     (let result = rtv_check store
      in if \<not> valid result then
           Returns (s\<lparr>logged := logged s @ [(''PreferencesStore.fromStore()'', result)]\<rparr>)
         else
           (case store of
              JObj obj \<Rightarrow>
                call_updateHandlers (s\<lparr>this := assign_each (Object_keys obj) obj (this s)\<rparr>)
            | _ \<Rightarrow> Throws TypeError s))"

text \<open>
  \<^verbatim>\<open>toJSON()\<close>: the keys of the defaults, the values of the instance, handed to
  \<^verbatim>\<open>toJS\<close>; what \<^verbatim>\<open>toJS\<close> throws, \<^verbatim>\<open>toJSON\<close> throws.
\<close>

definition toJSON :: "mobx \<Rightarrow> store \<Rightarrow> js_error + jsval" where
  "toJSON mobx s =
     (let defaults = getDefaults (defaultSavePath s);
          observableThis = assign_each (Object_keys defaults) (this s) []
      in toJS mobx (JObj observableThis))"

text \<open>
  \<^verbatim>\<open>addUpdateHandler(handler)\<close> for a function \<open>handler\<close> (the documented parameter
  type): \<^verbatim>\<open>h === handler\<close> holds exactly for the same function reference.
\<close>

definition addUpdateHandler :: "store \<Rightarrow> nat \<Rightarrow> outcome" where
  "addUpdateHandler s handler =
     (case jsget (this s) ''updateHandlers'' of
        JArr hs \<Rightarrow>
          if \<not> truthy (array_find (\<lambda>h. h = JFun handler) hs) then
            Returns (s\<lparr>this := jsset (this s) ''updateHandlers'' (JArr (hs @ [JFun handler]))\<rparr>)
          else Returns s
      | _ \<Rightarrow> Throws TypeError s)"

text \<open>\<^verbatim>\<open>removeUpdateHandler(handler)\<close>, for a function \<open>handler\<close> as well.\<close>

definition removeUpdateHandler :: "store \<Rightarrow> nat \<Rightarrow> outcome" where
  "removeUpdateHandler s handler =
     (case jsget (this s) ''updateHandlers'' of
        JArr hs \<Rightarrow>
          (let idx = findIndex (\<lambda>h. h = JFun handler) hs
           in if idx \<ge> 0 then
                Returns (s\<lparr>this := jsset (this s) ''updateHandlers'' (JArr (splice1 (nat idx) hs))\<rparr>)
              else Returns s)
      | _ \<Rightarrow> Throws TypeError s)"

section \<open>Using the store\<close>

text \<open>
  What the rest of the program can do with the module: assign the static default save
  path (a path string), and call the methods of the singleton. A caller may go on after
  a call that threw.
\<close>

datatype op =
    SetDefaultSavePath string
  | Reset
  | FromStore jsval
  | AddUpdateHandler nat
  | RemoveUpdateHandler nat

fun step :: "op \<Rightarrow> store \<Rightarrow> store" where
  "step (SetDefaultSavePath v) s = s\<lparr>defaultSavePath := JStr v\<rparr>"
| "step Reset s = reset s"
| "step (FromStore m) s = state_of (fromStore s m)"
| "step (AddUpdateHandler h) s = state_of (addUpdateHandler s h)"
| "step (RemoveUpdateHandler h) s = state_of (removeUpdateHandler s h)"

definition run :: "op list \<Rightarrow> store \<Rightarrow> store" where
  "run ops s = fold step ops s"

fun assigns_defaultSavePath :: "op \<Rightarrow> bool" where
  "assigns_defaultSavePath (SetDefaultSavePath v) = True"
| "assigns_defaultSavePath other = False"

text \<open>The names of the five preferences.\<close>

definition recognized :: "string list" where
  "recognized = [''cloudUrl'', ''username'', ''savePath'', ''offline'', ''addToNew'']"

section \<open>Example inputs\<close>


definition scenario_B_complete :: jsval where
  "scenario_B_complete =
     JObj [(''cloudUrl'', JStr ''https://mcc.example.com''),
           (''username'', JNull),
           (''savePath'', JNull),
           (''offline'', JBool True),
           (''addToNew'', JBool True)]"

definition scenario_C :: jsval where
  "scenario_C = JObj [(''cloudUrl'', JStr ''https://mcc.example.com/'')]"

definition map_empty_cloudUrl :: jsval where
  "map_empty_cloudUrl =
     JObj [(''cloudUrl'', JStr []),
           (''username'', JStr ''alice''),
           (''savePath'', JStr ''/home/alice/kubeconfigs''),
           (''offline'', JBool False),
           (''addToNew'', JBool True)]"

definition map_offline_null :: jsval where
  "map_offline_null =
     JObj [(''cloudUrl'', JNull),
           (''username'', JNull),
           (''savePath'', JNull),
           (''offline'', JNull),
           (''addToNew'', JBool True)]"

definition map_offline_number :: jsval where
  "map_offline_number =
     JObj [(''cloudUrl'', JNull),
           (''username'', JNull),
           (''savePath'', JNull),
           (''offline'', JNum 1),
           (''addToNew'', JBool True)]"

definition map_with_extra :: jsval where
  "map_with_extra =
     JObj [(''cloudUrl'', JNull),
           (''username'', JNull),
           (''savePath'', JNull),
           (''offline'', JBool False),
           (''addToNew'', JBool True),
           (''extra'', JNum 1)]"

definition map_with_updateHandlers :: jsval where
  "map_with_updateHandlers =
     JObj [(''cloudUrl'', JNull),
           (''username'', JNull),
           (''savePath'', JNull),
           (''offline'', JBool False),
           (''addToNew'', JBool True),
           (''updateHandlers'', JArr [])]"

text \<open>A store that has loaded the defaults, as the persistence layer does at start.\<close>

definition loaded_defaults :: store where
  "loaded_defaults = state_of (fromStore (module_init Mobx5 []) (JObj (getDefaults JNull)))"

section \<open>Properties of the object operations\<close>

lemma jsget_jsset: "jsget (jsset obj k v) k' = (if k' = k then v else jsget obj k')"
  by (induction obj k v rule: jsset.induct) (auto simp: jsget_def)

lemma keys_jsset: "set (Object_keys (jsset obj k v)) = insert k (set (Object_keys obj))"
  by (induction obj k v rule: jsset.induct) (auto simp: Object_keys_def)

lemma jsget_assign_each:
  "jsget (assign_each ks src tgt) k = (if k \<in> set ks then jsget src k else jsget tgt k)"
  unfolding assign_each_def
  by (induction ks arbitrary: tgt) (auto simp: jsget_jsset)

lemma keys_assign_each:
  "set (Object_keys (assign_each ks src tgt)) = set (Object_keys tgt) \<union> set ks"
  unfolding assign_each_def
  by (induction ks arbitrary: tgt) (auto simp: keys_jsset)

lemma jsget_undefined_if_absent: "k \<notin> set (Object_keys obj) \<Longrightarrow> jsget obj k = JUndefined"
  by (simp add: jsget_def Object_keys_def map_of_eq_None_iff[THEN iffD2])

lemma copy_of_contents: "copy_of v = v"
  by (induction v) (auto simp: map_idI prod.map_ident intro!: map_idI)

lemma check_string_iff:
  "check_typeset p (EXPECTED, STRING, None) v = RtvSuccess \<longleftrightarrow> v = JNull \<or> (\<exists>u. v = JStr u)"
  by (cases v) auto

lemma check_boolean_iff:
  "check_typeset p (EXPECTED, BOOLEAN, None) v = RtvSuccess \<longleftrightarrow> v = JNull \<or> (\<exists>b. v = JBool b)"
  by (cases v) auto

lemma check_cloudUrl_iff:
  "check_typeset p (EXPECTED, STRING, Some cloudUrl_validator) v = RtvSuccess
     \<longleftrightarrow> v = JNull \<or> (\<exists>u. v = JStr u \<and> \<not> match_trailing_slash u)"
  by (cases v) (auto simp: cloudUrl_validator_def match_trailing_slash_def)

lemma valid_iff_success: "valid r \<longleftrightarrow> r = RtvSuccess"
  by (cases r) auto

lemma check_shape_Cons_success:
  "check_shape p ((k, ts) # shape) obj = RtvSuccess \<longleftrightarrow>
     check_typeset (p @ ''/'' @ k) ts (jsget obj k) = RtvSuccess \<and> check_shape p shape obj = RtvSuccess"
  by (auto split: rtv_result.splits)

lemma rtv_check_success_iff:
  "valid (rtv_check store) \<longleftrightarrow>
     (\<exists>obj. store = JObj obj
        \<and> (jsget obj ''cloudUrl'' = JNull \<or> (\<exists>u. jsget obj ''cloudUrl'' = JStr u \<and> \<not> match_trailing_slash u))
        \<and> (jsget obj ''username'' = JNull \<or> (\<exists>u. jsget obj ''username'' = JStr u))
        \<and> (jsget obj ''savePath'' = JNull \<or> (\<exists>u. jsget obj ''savePath'' = JStr u))
        \<and> (jsget obj ''offline'' = JNull \<or> (\<exists>b. jsget obj ''offline'' = JBool b))
        \<and> (jsget obj ''addToNew'' = JNull \<or> (\<exists>b. jsget obj ''addToNew'' = JBool b)))"
proof (cases store)
  case (JObj obj)
  then show ?thesis
    unfolding valid_iff_success rtv_check_def preferencesTs_def
    by (simp only: jsval.case check_shape_Cons_success check_string_iff check_boolean_iff
          check_cloudUrl_iff check_shape.simps(1) jsval.inject simp_thms ex_simps)
qed (simp_all add: rtv_check_def)

lemma call_each_frame:
  "this (state_of (call_each hs s)) = this s
   \<and> defaultSavePath (state_of (call_each hs s)) = defaultSavePath s
   \<and> logged (state_of (call_each hs s)) = logged s"
  by (induction hs s rule: call_each.induct) auto

lemma call_each_functions:
  "call_each (map JFun fs) s = Returns (s\<lparr>invoked := invoked s @ fs\<rparr>)"
  by (induction fs arbitrary: s) auto

lemma call_updateHandlers_frame:
  "this (state_of (call_updateHandlers s)) = this s
   \<and> defaultSavePath (state_of (call_updateHandlers s)) = defaultSavePath s
   \<and> logged (state_of (call_updateHandlers s)) = logged s"
  by (auto simp: call_updateHandlers_def call_each_frame split: jsval.splits)

lemma fromStore_invalid:
  "\<not> valid (rtv_check store) \<Longrightarrow>
     fromStore s store =
       Returns (s\<lparr>logged := logged s @ [(''PreferencesStore.fromStore()'', rtv_check store)]\<rparr>)"
  by (simp add: fromStore_def)

lemma fromStore_valid:
  "valid (rtv_check (JObj obj)) \<Longrightarrow>
     fromStore s (JObj obj) =
       call_updateHandlers (s\<lparr>this := assign_each (Object_keys obj) obj (this s)\<rparr>)"
  by (simp add: fromStore_def)

lemma fromStore_valid_this:
  "valid (rtv_check (JObj obj)) \<Longrightarrow>
     this (state_of (fromStore s (JObj obj))) = assign_each (Object_keys obj) obj (this s)"
  by (simp add: fromStore_valid call_updateHandlers_frame)

lemma fromStore_static: "defaultSavePath (state_of (fromStore s store)) = defaultSavePath s"
  by (cases "valid (rtv_check store)")
     (auto simp: fromStore_def call_updateHandlers_frame split: jsval.splits)

section \<open>What every operation preserves\<close>

lemma reset_static: "defaultSavePath (reset s) = defaultSavePath s"
  by (simp add: reset_def)

lemma addUpdateHandler_static:
  "defaultSavePath (state_of (addUpdateHandler s h)) = defaultSavePath s"
  by (auto simp: addUpdateHandler_def split: jsval.splits)

lemma removeUpdateHandler_static:
  "defaultSavePath (state_of (removeUpdateHandler s h)) = defaultSavePath s"
  by (auto simp: removeUpdateHandler_def Let_def split: jsval.splits)

lemma step_static:
  "\<not> assigns_defaultSavePath x \<Longrightarrow> defaultSavePath (step x s) = defaultSavePath s"
  by (cases x)
     (simp_all add: reset_static fromStore_static addUpdateHandler_static
        removeUpdateHandler_static)

lemma run_static:
  "\<not> list_ex assigns_defaultSavePath ops \<Longrightarrow> defaultSavePath (run ops s) = defaultSavePath s"
  unfolding run_def by (induction ops arbitrary: s) (simp_all add: step_static)

lemma run_append: "run (xs @ ys) s = run ys (run xs s)"
  by (simp add: run_def)

lemma run_Cons: "run (x # xs) s = run xs (step x s)"
  by (simp add: run_def)

text \<open>Properties are never removed.\<close>

lemma reset_keys: "set (Object_keys (this (reset s))) = set (Object_keys (this s))"
  by (simp add: reset_def keys_assign_each)

lemma fromStore_keys:
  "set (Object_keys (this s)) \<subseteq> set (Object_keys (this (state_of (fromStore s store))))"
proof (cases "valid (rtv_check store)")
  case True
  then obtain obj where "store = JObj obj"
    unfolding rtv_check_success_iff by blast
  with True show ?thesis
    by (simp add: fromStore_valid_this keys_assign_each)
next
  case False
  then show ?thesis by (simp add: fromStore_invalid)
qed

lemma addUpdateHandler_this:
  "this (state_of (addUpdateHandler s h)) = this s
   \<or> (\<exists>v. this (state_of (addUpdateHandler s h)) = jsset (this s) ''updateHandlers'' v)"
  by (auto simp: addUpdateHandler_def split: jsval.splits)

lemma removeUpdateHandler_this:
  "this (state_of (removeUpdateHandler s h)) = this s
   \<or> (\<exists>v. this (state_of (removeUpdateHandler s h)) = jsset (this s) ''updateHandlers'' v)"
  by (auto simp: removeUpdateHandler_def Let_def split: jsval.splits)

lemma step_keys: "set (Object_keys (this s)) \<subseteq> set (Object_keys (this (step x s)))"
proof (cases x)
  case (AddUpdateHandler h)
  then show ?thesis
    using addUpdateHandler_this [of s h] by (auto simp: keys_jsset)
next
  case (RemoveUpdateHandler h)
  then show ?thesis
    using removeUpdateHandler_this [of s h] by (auto simp: keys_jsset)
qed (simp_all add: reset_keys fromStore_keys)

lemma run_keys: "set (Object_keys (this s)) \<subseteq> set (Object_keys (this (run ops s)))"
  unfolding run_def
proof (induction ops arbitrary: s)
  case Nil
  show ?case by simp
next
  case (Cons x ops)
  have "set (Object_keys (this s)) \<subseteq> set (Object_keys (this (step x s)))"
    by (rule step_keys)
  also have "\<dots> \<subseteq> set (Object_keys (this (fold step ops (step x s))))"
    by (rule Cons.IH)
  finally show ?case by simp
qed

lemma new_instance_updateHandlers:
  "''updateHandlers'' \<in> set (Object_keys (new_instance mobx base))
   \<and> jsget (new_instance mobx base) ''updateHandlers'' = JArr []"
  by (simp add: new_instance_def Let_def keys_jsset jsget_jsset)

lemma reachable_keys:
  "''updateHandlers'' \<in> set (Object_keys (this (run ops (module_init mobx base))))"
proof -
  have "''updateHandlers'' \<in> set (Object_keys (this (module_init mobx base)))"
    by (simp add: module_init_def new_instance_updateHandlers)
  then show ?thesis
    using run_keys by blast
qed

text \<open>Once a valid map has been loaded, the five fields are own properties for good.\<close>

lemma loaded_keys:
  assumes "valid (rtv_check store)"
  shows "set recognized \<subseteq> set (Object_keys (this (run ops (state_of (fromStore s store)))))"
proof -
  from assms obtain obj where obj: "store = JObj obj"
    unfolding rtv_check_success_iff by blast
  have "jsget obj key \<noteq> JUndefined" if "key \<in> set recognized" for key
    using assms that unfolding obj rtv_check_success_iff recognized_def by auto
  then have "set recognized \<subseteq> set (Object_keys obj)"
    using jsget_undefined_if_absent by blast
  then have "set recognized \<subseteq> set (Object_keys (this (state_of (fromStore s store))))"
    using assms unfolding obj by (auto simp: fromStore_valid_this keys_assign_each)
  then show ?thesis
    using run_keys by blast
qed

lemma reset_value:
  "key \<in> set (Object_keys (this s)) \<Longrightarrow>
     jsget (this (reset s)) key = jsget (getDefaults (defaultSavePath s)) key"
  by (simp add: reset_def jsget_assign_each)

lemma toJSON_eq:
  "toJSON mobx s =
     toJS mobx (JObj [(''cloudUrl'', jsget (this s) ''cloudUrl''),
           (''username'', jsget (this s) ''username''),
           (''savePath'', jsget (this s) ''savePath''),
           (''offline'', jsget (this s) ''offline''),
           (''addToNew'', jsget (this s) ''addToNew'')])"
  by (simp add: toJSON_def getDefaults_def Object_keys_def assign_each_def
        enumerated_before_def is_array_index_def)

lemma reset_then_toJSON:
  assumes "set recognized \<subseteq> set (Object_keys (this s))"
  shows "toJSON mobx (reset s) = toJS mobx (JObj (getDefaults (defaultSavePath s)))"
proof -
  have "jsget (this (reset s)) key = jsget (getDefaults (defaultSavePath s)) key"
    if "key \<in> set recognized" for key
    using assms that by (auto intro: reset_value)
  then show ?thesis
    by (simp add: toJSON_eq recognized_def) (simp add: getDefaults_def jsget_def)
qed

section \<open>Loading a map whose cloudUrl ends with a slash\<close>

text \<open>
  C2. For every raw map whose \<^verbatim>\<open>cloudUrl\<close> is a string that ends with a slash,
  \<^verbatim>\<open>fromStore\<close> returns after one call to \<^verbatim>\<open>logger.error\<close>: the store it leaves
  differs from the one it found by that log entry only, so every property of the instance
  has its former value and no handler has been called. The empty string does not match
  the pattern: with an empty \<^verbatim>\<open>cloudUrl\<close> the map is valid exactly when its other four
  fields are.
\<close>

theorem fromStore_rejects_trailing_slash:
  "(jsget obj ''cloudUrl'' = JStr (w @ ''/'') \<longrightarrow>
      fromStore s (JObj obj) =
        Returns (s\<lparr>logged := logged s @
          [(''PreferencesStore.fromStore()'',
            RtvError ''/store/cloudUrl'' (Some ''cloudUrl must not end with a slash''))]\<rparr>))
   \<and> (jsget obj ''cloudUrl'' = JStr [] \<longrightarrow>
        (valid (rtv_check (JObj obj)) \<longleftrightarrow>
           (jsget obj ''username'' = JNull \<or> (\<exists>u. jsget obj ''username'' = JStr u))
         \<and> (jsget obj ''savePath'' = JNull \<or> (\<exists>u. jsget obj ''savePath'' = JStr u))
         \<and> (jsget obj ''offline'' = JNull \<or> (\<exists>b. jsget obj ''offline'' = JBool b))
         \<and> (jsget obj ''addToNew'' = JNull \<or> (\<exists>b. jsget obj ''addToNew'' = JBool b))))"
proof (intro conjI impI)
  assume slash: "jsget obj ''cloudUrl'' = JStr (w @ ''/'')"
  have r: "rtv_check (JObj obj) =
             RtvError ''/store/cloudUrl'' (Some ''cloudUrl must not end with a slash'')"
    using slash
    by (simp add: rtv_check_def preferencesTs_def cloudUrl_validator_def match_trailing_slash_def)
  then have "\<not> valid (rtv_check (JObj obj))" by simp
  from fromStore_invalid [OF this] r
  show "fromStore s (JObj obj) =
        Returns (s\<lparr>logged := logged s @
          [(''PreferencesStore.fromStore()'',
            RtvError ''/store/cloudUrl'' (Some ''cloudUrl must not end with a slash''))]\<rparr>)"
    by simp
next
  assume empty: "jsget obj ''cloudUrl'' = JStr []"
  show "valid (rtv_check (JObj obj)) \<longleftrightarrow>
           (jsget obj ''username'' = JNull \<or> (\<exists>u. jsget obj ''username'' = JStr u))
         \<and> (jsget obj ''savePath'' = JNull \<or> (\<exists>u. jsget obj ''savePath'' = JStr u))
         \<and> (jsget obj ''offline'' = JNull \<or> (\<exists>b. jsget obj ''offline'' = JBool b))
         \<and> (jsget obj ''addToNew'' = JNull \<or> (\<exists>b. jsget obj ''addToNew'' = JBool b))"
    using empty by (simp add: rtv_check_success_iff match_trailing_slash_def)
qed

theorem fromStore_rejects_trailing_slash_witness:
  "fromStore loaded_defaults scenario_C =
     Returns (loaded_defaults\<lparr>logged :=
       [(''PreferencesStore.fromStore()'',
         RtvError ''/store/cloudUrl'' (Some ''cloudUrl must not end with a slash''))]\<rparr>)
   \<and> valid (rtv_check map_empty_cloudUrl)"
proof -
  let ?objC = "[(''cloudUrl'', JStr ''https://mcc.example.com/'')]"
  let ?objE = "[(''cloudUrl'', JStr []), (''username'', JStr ''alice''),
                (''savePath'', JStr ''/home/alice/kubeconfigs''),
                (''offline'', JBool False), (''addToNew'', JBool True)]"
  have l: "logged loaded_defaults = []"
    by code_simp
  have c: "jsget ?objC ''cloudUrl'' = JStr (''https://mcc.example.com'' @ ''/'')"
    by (simp add: jsget_def)
  have e: "jsget ?objE ''cloudUrl'' = JStr []"
    by (simp add: jsget_def)
  from fromStore_rejects_trailing_slash [of ?objC "''https://mcc.example.com''" loaded_defaults]
       fromStore_rejects_trailing_slash [of ?objE w loaded_defaults for w] c e l
  show ?thesis
    by (auto simp: scenario_C_def map_empty_cloudUrl_def jsget_def)
qed

section \<open>Loading a valid map\<close>





section \<open>Keys that are not preferences\<close>

text \<open>
  C3, as the code has it. \<^verbatim>\<open>fromStore\<close> assigns every key of a valid map, recognized or
  not. For a map that has no key \<^verbatim>\<open>__proto__\<close> (an assignment to that key sets the
  prototype of the instance instead): after it each key of the map is a property of the
  instance with the map's value, every other property has its former value, and the
  instance has the keys of both.
\<close>

theorem fromStore_adopts_every_key:
  assumes "valid (rtv_check (JObj obj))"
    and "''__proto__'' \<notin> set (Object_keys obj)"
  shows "(\<forall>key \<in> set (Object_keys obj).
            jsget (this (state_of (fromStore s (JObj obj)))) key = jsget obj key)
       \<and> (\<forall>key. key \<notin> set (Object_keys obj) \<longrightarrow>
            jsget (this (state_of (fromStore s (JObj obj)))) key = jsget (this s) key)
       \<and> set (Object_keys (this (state_of (fromStore s (JObj obj)))))
           = set (Object_keys (this s)) \<union> set (Object_keys obj)"
  using assms(1) by (simp add: fromStore_valid_this jsget_assign_each keys_assign_each)

text \<open>The theorem at a valid map with the additional key \<^verbatim>\<open>extra\<close>.\<close>

theorem fromStore_adopts_every_key_witness:
  "valid (rtv_check map_with_extra)
   \<and> jsget (this (state_of (fromStore loaded_defaults map_with_extra))) ''extra'' = JNum 1
   \<and> jsget (this (state_of (fromStore loaded_defaults map_with_extra))) ''updateHandlers''
       = jsget (this loaded_defaults) ''updateHandlers''
   \<and> ''extra'' \<in> set (Object_keys (this (state_of (fromStore loaded_defaults map_with_extra))))"
proof -
  let ?obj = "[(''cloudUrl'', JNull), (''username'', JNull), (''savePath'', JNull),
               (''offline'', JBool False), (''addToNew'', JBool True), (''extra'', JNum 1)]"
  have v: "valid (rtv_check (JObj ?obj))" by code_simp
  have p: "''__proto__'' \<notin> set (Object_keys ?obj)" by (simp add: Object_keys_def)
  from fromStore_adopts_every_key [OF v p, of loaded_defaults] v
  show ?thesis
    by (simp add: map_with_extra_def Object_keys_def jsget_def)
qed

text \<open>
  C3 as stated fails: the key \<^verbatim>\<open>extra\<close> is not one of the five, the instance has no such
  property before the load, and has it afterwards.
\<close>

theorem unrecognized_key_counterexample:
  "valid (rtv_check map_with_extra)
   \<and> ''extra'' \<notin> set recognized
   \<and> jsget (this loaded_defaults) ''extra'' = JUndefined
   \<and> jsget (this (state_of (fromStore loaded_defaults map_with_extra))) ''extra'' = JNum 1"
  by code_simp

section \<open>Flags that are not booleans\<close>

text \<open>
  C5, as the code has it. A raw map in which \<^verbatim>\<open>offline\<close> or \<^verbatim>\<open>addToNew\<close> is present with
  a value that is neither a boolean nor \<^verbatim>\<open>null\<close> is invalid, and \<^verbatim>\<open>fromStore\<close> only logs
  the failure: every property of the instance keeps its value.
\<close>

theorem fromStore_rejects_non_boolean:
  assumes "key = ''offline'' \<or> key = ''addToNew''"
    and "key \<in> set (Object_keys obj)"
    and "jsget obj key \<noteq> JNull"
    and "\<forall>b. jsget obj key \<noteq> JBool b"
  shows "\<not> valid (rtv_check (JObj obj))
       \<and> fromStore s (JObj obj) =
           Returns (s\<lparr>logged := logged s @ [(''PreferencesStore.fromStore()'', rtv_check (JObj obj))]\<rparr>)"
proof -
  have "\<not> valid (rtv_check (JObj obj))"
    using assms unfolding rtv_check_success_iff by auto
  then show ?thesis
    by (simp add: fromStore_invalid)
qed

text \<open>The theorem at a map whose \<^verbatim>\<open>offline\<close> is the number 1.\<close>

theorem fromStore_rejects_non_boolean_witness:
  "\<not> valid (rtv_check map_offline_number)
   \<and> this (state_of (fromStore loaded_defaults map_offline_number)) = this loaded_defaults
   \<and> invoked (state_of (fromStore loaded_defaults map_offline_number)) = invoked loaded_defaults"
proof -
  let ?obj = "[(''cloudUrl'', JNull), (''username'', JNull), (''savePath'', JNull),
               (''offline'', JNum 1), (''addToNew'', JBool True)]"
  have "''offline'' = ''offline'' \<or> ''offline'' = ''addToNew''" by simp
  moreover have "''offline'' \<in> set (Object_keys ?obj)" by (simp add: Object_keys_def)
  moreover have "jsget ?obj ''offline'' \<noteq> JNull" by (simp add: jsget_def)
  moreover have "\<forall>b. jsget ?obj ''offline'' \<noteq> JBool b" by (simp add: jsget_def)
  ultimately show ?thesis
    using fromStore_rejects_non_boolean [of "''offline''" ?obj loaded_defaults]
    by (simp add: map_offline_number_def)
qed

text \<open>
  C5 as stated fails at \<^verbatim>\<open>null\<close>: a map whose \<^verbatim>\<open>offline\<close> is \<^verbatim>\<open>null\<close> is valid, and loading it
  makes the live \<^verbatim>\<open>offline\<close> field \<^verbatim>\<open>null\<close>.
\<close>

theorem null_flag_counterexample:
  "valid (rtv_check map_offline_null)
   \<and> jsget (this loaded_defaults) ''offline'' = JBool False
   \<and> jsget (this (state_of (fromStore loaded_defaults map_offline_null))) ''offline'' = JNull"
  by code_simp

section \<open>Reset\<close>

text \<open>
  C4, evaluated on the code. \<^verbatim>\<open>reset\<close> goes through \<^verbatim>\<open>Object.keys(this)\<close>, and one of
  these keys is \<^verbatim>\<open>updateHandlers\<close>, for which the defaults have no value: in every state
  that the store can reach, \<^verbatim>\<open>reset\<close> leaves \<^verbatim>\<open>updateHandlers\<close> \<^verbatim>\<open>undefined\<close>. With the
  handler 7 registered, a \<^verbatim>\<open>reset\<close> and then a load of a valid map, \<^verbatim>\<open>fromStore\<close> assigns
  the fields, throws a TypeError at \<^verbatim>\<open>this.updateHandlers.forEach\<close>, and the handler is
  not called.
\<close>

theorem reset_overwrites_updateHandlers:
  "jsget (this (reset (run ops (module_init mobx base)))) ''updateHandlers'' = JUndefined
   \<and> jsget (this (state_of (addUpdateHandler loaded_defaults 7))) ''updateHandlers''
       = JArr [JFun 7]
   \<and> fromStore (reset (state_of (addUpdateHandler loaded_defaults 7))) (JObj (getDefaults JNull))
       = Throws TypeError
          \<lparr>defaultSavePath = JNull,
           this = [(''updateHandlers'', JUndefined), (''cloudUrl'', JNull),
                   (''username'', JNull), (''savePath'', JNull),
                   (''offline'', JBool False), (''addToNew'', JBool True)],
           logged = [], invoked = []\<rparr>"
proof (intro conjI)
  have "''updateHandlers'' \<in> set (Object_keys (this (run ops (module_init mobx base))))"
    using reachable_keys [of ops mobx base] by simp
  then have "jsget (this (reset (run ops (module_init mobx base)))) ''updateHandlers''
      = jsget (getDefaults (defaultSavePath (run ops (module_init mobx base)))) ''updateHandlers''"
    by (rule reset_value)
  then show "jsget (this (reset (run ops (module_init mobx base)))) ''updateHandlers'' = JUndefined"
    by (simp add: getDefaults_def) (simp add: jsget_def)
  show "jsget (this (state_of (addUpdateHandler loaded_defaults 7))) ''updateHandlers''
       = JArr [JFun 7]"
    by code_simp
  show "fromStore (reset (state_of (addUpdateHandler loaded_defaults 7))) (JObj (getDefaults JNull))
       = Throws TypeError
          \<lparr>defaultSavePath = JNull,
           this = [(''updateHandlers'', JUndefined), (''cloudUrl'', JNull),
                   (''username'', JNull), (''savePath'', JNull),
                   (''offline'', JBool False), (''addToNew'', JBool True)],
           logged = [], invoked = []\<rparr>"
    by code_simp
qed

text \<open>
  Where the five fields are own properties of the instance, which they are for good once
  a valid map has been loaded, and \<^verbatim>\<open>toJS\<close> takes the options, \<^verbatim>\<open>reset\<close> followed by
  \<^verbatim>\<open>toJSON\<close> gives the defaults.
\<close>

lemma reset_then_toJSON_after_load:
  assumes "valid (rtv_check store)" and "mobx \<noteq> Mobx6_development"
  shows "toJSON mobx (reset (run ops (state_of (fromStore s store))))
           = Inr (JObj (getDefaults (defaultSavePath (run ops (state_of (fromStore s store))))))"
proof -
  have "toJS mobx x = Inr x" for x
    using assms(2) by (cases mobx) (simp_all add: copy_of_contents)
  then show ?thesis
    using loaded_keys [OF assms(1)] by (simp add: reset_then_toJSON)
qed


section \<open>The snapshot\<close>

text \<open>
  Where \<^verbatim>\<open>toJS\<close> takes the options, \<^verbatim>\<open>toJSON\<close> returns an object with exactly the five
  recognized keys, in the order of the defaults, and at each the value of the live field.
\<close>

lemma toJSON_keys_and_values:
  assumes "mobx \<noteq> Mobx6_development"
  shows "\<exists>snap. toJSON mobx s = Inr (JObj snap) \<and> Object_keys snap = recognized
      \<and> (\<forall>key. jsget snap key =
            (if key \<in> set recognized then jsget (this s) key else JUndefined))"
proof -
  let ?snap = "[(''cloudUrl'', jsget (this s) ''cloudUrl''),
           (''username'', jsget (this s) ''username''),
           (''savePath'', jsget (this s) ''savePath''),
           (''offline'', jsget (this s) ''offline''),
           (''addToNew'', jsget (this s) ''addToNew'')]"
  have "toJSON mobx s = Inr (JObj ?snap)"
    using assms by (cases mobx) (simp_all add: toJSON_eq copy_of_contents)
  moreover have "Object_keys ?snap = recognized"
    by (simp add: Object_keys_def recognized_def)
  moreover have "\<forall>key. jsget ?snap key =
      (if key \<in> set recognized then jsget (this s) key else JUndefined)"
    by (simp add: recognized_def) (simp add: jsget_def)
  ultimately show ?thesis by blast
qed


section \<open>The defaults\<close>

text \<open>
  C9. \<^verbatim>\<open>getDefaults\<close> is static: it reads the static \<^verbatim>\<open>defaultSavePath\<close> and nothing of an
  instance. It returns an object with the five recognized keys, \<^verbatim>\<open>cloudUrl\<close> and
  \<^verbatim>\<open>username\<close> \<^verbatim>\<open>null\<close>, \<^verbatim>\<open>savePath\<close> the static default, \<^verbatim>\<open>offline\<close> false and
  \<^verbatim>\<open>addToNew\<close> true. The static default is \<^verbatim>\<open>null\<close> when the module is loaded, so without
  an assignment the defaults are those of scenario A.
\<close>

theorem getDefaults_values:
  "Object_keys (getDefaults d) = recognized
   \<and> jsget (getDefaults d) ''cloudUrl'' = JNull
   \<and> jsget (getDefaults d) ''username'' = JNull
   \<and> jsget (getDefaults d) ''savePath'' = d
   \<and> jsget (getDefaults d) ''offline'' = JBool False
   \<and> jsget (getDefaults d) ''addToNew'' = JBool True
   \<and> defaultSavePath (module_init mobx base) = JNull
   \<and> getDefaults (defaultSavePath (module_init mobx base)) =
       [(''cloudUrl'', JNull), (''username'', JNull), (''savePath'', JNull),
        (''offline'', JBool False), (''addToNew'', JBool True)]"
  by (simp add: getDefaults_def Object_keys_def recognized_def jsget_def module_init_def)

text \<open>
  The static is read by each call of \<^verbatim>\<open>getDefaults\<close>, and no method of the store assigns
  it: once a string has been assigned, \<^verbatim>\<open>getDefaults\<close> returns it as \<^verbatim>\<open>savePath\<close> until
  the next assignment; and where \<^verbatim>\<open>savePath\<close> is an own property of the instance,
  \<^verbatim>\<open>reset\<close> sets it to that string.
\<close>

lemma getDefaults_reads_static:
  assumes "\<not> list_ex assigns_defaultSavePath later"
  shows "jsget (getDefaults (defaultSavePath
            (run later (step (SetDefaultSavePath v) s)))) ''savePath'' = JStr v"
  using assms by (simp add: run_static getDefaults_def jsget_def)

lemma reset_sets_own_savePath:
  assumes "''savePath'' \<in> set (Object_keys (this s))"
  shows "jsget (this (reset s)) ''savePath'' = defaultSavePath s"
  using reset_value [OF assms] by (simp add: getDefaults_def jsget_def)


section \<open>The update handlers\<close>

lemma truthy_array_find:
  "truthy (array_find (\<lambda>x. x = JFun h) hs) \<longleftrightarrow> JFun h \<in> set hs"
  by (induction hs) (auto simp: array_find_def)

lemma addUpdateHandler_registered:
  assumes "jsget (this s) ''updateHandlers'' = JArr hs"
  shows "addUpdateHandler s h =
           Returns (if JFun h \<in> set hs then s
                    else s\<lparr>this := jsset (this s) ''updateHandlers'' (JArr (hs @ [JFun h]))\<rparr>)"
  using assms by (simp add: addUpdateHandler_def truthy_array_find)

lemma addUpdateHandler_registry:
  assumes "jsget (this s) ''updateHandlers'' = JArr (map JFun fs)"
  shows "jsget (this (state_of (addUpdateHandler s h))) ''updateHandlers''
           = JArr (map JFun ((if h \<in> set fs then fs else fs @ [h])))"
  using assms
  by (auto simp: addUpdateHandler_registered jsget_jsset)

lemma remdups_snoc:
  "remdups (ys @ [x]) = remdups (filter (\<lambda>y. y \<noteq> x) ys) @ [x]"
  by (induction ys) auto

lemma fold_registered:
  "distinct fs \<Longrightarrow>
     fold (\<lambda>h fs. (if h \<in> set fs then fs else fs @ [h])) hs fs
       = fs @ rev (remdups (rev (filter (\<lambda>h. h \<notin> set fs) hs)))"
proof (induction hs arbitrary: fs)
  case Nil
  show ?case by simp
next
  case (Cons x xs)
  show ?case
  proof (cases "x \<in> set fs")
    case True
    with Cons show ?thesis by (simp add:)
  next
    case False
    let ?ys = "filter (\<lambda>h. h \<notin> set fs) xs"
    have "distinct (fs @ [x])" using Cons.prems False by simp
    from Cons.IH [OF this]
    have "fold (\<lambda>h fs. (if h \<in> set fs then fs else fs @ [h])) xs (fs @ [x])
            = fs @ [x] @ rev (remdups (rev (filter (\<lambda>h. h \<notin> set fs \<and> h \<noteq> x) xs)))"
      by (simp add: conj_commute)
    moreover have "rev (remdups (rev (x # ?ys)))
            = x # rev (remdups (rev (filter (\<lambda>h. h \<noteq> x) ?ys)))"
      by (simp add: remdups_snoc rev_filter)
    ultimately show ?thesis
      using False by (simp add: conj_commute)
  qed
qed

lemma run_registrations:
  assumes "jsget (this s) ''updateHandlers'' = JArr (map JFun fs)"
  shows "jsget (this (run (map AddUpdateHandler hs) s)) ''updateHandlers''
           = JArr (map JFun (fold (\<lambda>h fs. (if h \<in> set fs then fs else fs @ [h])) hs fs))
       \<and> invoked (run (map AddUpdateHandler hs) s) = invoked s"
  using assms
proof (induction hs arbitrary: s fs)
  case Nil
  then show ?case by (simp add: run_def)
next
  case (Cons h hs)
  have "jsget (this (step (AddUpdateHandler h) s)) ''updateHandlers''
          = JArr (map JFun ((if h \<in> set fs then fs else fs @ [h])))"
    using Cons.prems by (simp add: addUpdateHandler_registry)
  from Cons.IH [OF this]
  have "jsget (this (run (map AddUpdateHandler hs) (step (AddUpdateHandler h) s))) ''updateHandlers''
          = JArr (map JFun (fold (\<lambda>h fs. (if h \<in> set fs then fs else fs @ [h])) hs ((if h \<in> set fs then fs else fs @ [h]))))"
    and "invoked (run (map AddUpdateHandler hs) (step (AddUpdateHandler h) s))
          = invoked (step (AddUpdateHandler h) s)"
    by blast+
  moreover have "invoked (step (AddUpdateHandler h) s) = invoked s"
    using Cons.prems by (simp add: addUpdateHandler_registered)
  ultimately show ?case
    by (simp add: run_Cons)
qed

lemma fromStore_calls_registry:
  assumes "valid (rtv_check (JObj obj))"
    and "''updateHandlers'' \<notin> set (Object_keys obj)"
    and "jsget (this s) ''updateHandlers'' = JArr (map JFun fs)"
  shows "fromStore s (JObj obj) =
           Returns (s\<lparr>this := assign_each (Object_keys obj) obj (this s),
                      invoked := invoked s @ fs\<rparr>)"
  using assms
  by (simp add: fromStore_valid call_updateHandlers_def jsget_assign_each call_each_functions)

lemma count_list_distinct:
  "distinct xs \<Longrightarrow> count_list xs x = (if x \<in> set xs then 1 else 0)"
  by (induction xs) auto

text \<open>
  C8, as the code has it. On a store whose registry is an array of distinct handlers, a
  second \<^verbatim>\<open>addUpdateHandler(h)\<close> returns without a change: the registry is the former one,
  with \<open>h\<close> added last if it was not there, and \<open>h\<close> occurs in it once. A following
  \<^verbatim>\<open>fromStore\<close> of a valid map that has no key \<^verbatim>\<open>updateHandlers\<close> returns after it has
  called the handlers of the registry, each once and in the order of the registry, so
  \<open>h\<close> is called once. On a new store, after any sequence of registrations, the handlers
  called are the distinct handlers in the order of their first registration.
\<close>

theorem addUpdateHandler_is_idempotent:
  assumes "jsget (this s) ''updateHandlers'' = JArr (map JFun fs)"
    and "distinct fs"
    and "valid (rtv_check (JObj obj))"
    and "''updateHandlers'' \<notin> set (Object_keys obj)"
  shows "(let s1 = state_of (addUpdateHandler s h);
              s2 = state_of (addUpdateHandler s1 h);
              fs' = (if h \<in> set fs then fs else fs @ [h])
          in addUpdateHandler s1 h = Returns s1
           \<and> jsget (this s2) ''updateHandlers'' = JArr (map JFun fs')
           \<and> count_list fs' h = 1
           \<and> fromStore s2 (JObj obj) =
               Returns (s2\<lparr>this := assign_each (Object_keys obj) obj (this s2),
                          invoked := invoked s2 @ fs'\<rparr>))
       \<and> fromStore (run (map AddUpdateHandler hs) (module_init mobx base)) (JObj obj) =
           Returns ((run (map AddUpdateHandler hs) (module_init mobx base))
             \<lparr>this := assign_each (Object_keys obj) obj
                        (this (run (map AddUpdateHandler hs) (module_init mobx base))),
              invoked := rev (remdups (rev hs))\<rparr>)"
proof -
  let ?fs' = "if h \<in> set fs then fs else fs @ [h]"
  let ?s1 = "state_of (addUpdateHandler s h)"
  have reg1: "jsget (this ?s1) ''updateHandlers'' = JArr (map JFun ?fs')"
    using assms(1) by (rule addUpdateHandler_registry)
  have in1: "JFun h \<in> set (map JFun ?fs')"
    by simp
  have idem: "addUpdateHandler ?s1 h = Returns ?s1"
    using addUpdateHandler_registered [OF reg1, of h] in1 by (simp only: if_True)
  have d: "distinct ?fs'"
    using assms(2) by simp
  have c: "count_list ?fs' h = 1"
    using d by (simp add: count_list_distinct)
  have call: "fromStore ?s1 (JObj obj) =
      Returns (?s1\<lparr>this := assign_each (Object_keys obj) obj (this ?s1),
                      invoked := invoked ?s1 @ ?fs'\<rparr>)"
    using assms(3,4) reg1 by (rule fromStore_calls_registry)
  have first: "let s1 = ?s1; s2 = state_of (addUpdateHandler s1 h); fs' = ?fs'
        in addUpdateHandler s1 h = Returns s1
           \<and> jsget (this s2) ''updateHandlers'' = JArr (map JFun fs')
           \<and> count_list fs' h = 1
           \<and> fromStore s2 (JObj obj) =
               Returns (s2\<lparr>this := assign_each (Object_keys obj) obj (this s2),
                          invoked := invoked s2 @ fs'\<rparr>)"
    unfolding Let_def idem state_of.simps using idem reg1 c call by blast
  let ?r = "run (map AddUpdateHandler hs) (module_init mobx base)"
  have "jsget (this (module_init mobx base)) ''updateHandlers'' = JArr (map JFun [])"
    by (simp add: module_init_def new_instance_updateHandlers)
  from run_registrations [OF this, of hs]
  have "jsget (this ?r) ''updateHandlers''
          = JArr (map JFun (fold (\<lambda>h fs. if h \<in> set fs then fs else fs @ [h]) hs []))"
    and inv: "invoked ?r = []"
    by (simp_all add: module_init_def)
  then have "jsget (this ?r) ''updateHandlers'' = JArr (map JFun (rev (remdups (rev hs))))"
    by (simp add: fold_registered)
  from fromStore_calls_registry [OF assms(3,4) this] inv
  have second: "fromStore ?r (JObj obj) =
      Returns (?r\<lparr>this := assign_each (Object_keys obj) obj (this ?r),
                     invoked := rev (remdups (rev hs))\<rparr>)"
    by simp
  from first second show ?thesis by blast
qed

text \<open>
  The theorem on a store that holds the defaults, with the handler 7 registered twice, and
  on a new store with the registrations 3, 5, 3.
\<close>

theorem addUpdateHandler_is_idempotent_witness:
  "invoked (state_of (fromStore
      (state_of (addUpdateHandler (state_of (addUpdateHandler loaded_defaults 7)) 7))
      scenario_B_complete)) = [7]
   \<and> invoked (state_of (fromStore
        (run (map AddUpdateHandler [3, 5, 3]) (module_init Mobx5 [])) scenario_B_complete)) = [3, 5]"
proof -
  let ?obj = "[(''cloudUrl'', JStr ''https://mcc.example.com''), (''username'', JNull),
               (''savePath'', JNull), (''offline'', JBool True), (''addToNew'', JBool True)]"
  have r: "jsget (this loaded_defaults) ''updateHandlers'' = JArr (map JFun [])"
    by code_simp
  have d: "distinct ([] :: nat list)"
    by simp
  have v: "valid (rtv_check (JObj ?obj))"
    by code_simp
  have k: "''updateHandlers'' \<notin> set (Object_keys ?obj)"
    by (simp add: Object_keys_def)
  have i: "invoked (state_of (addUpdateHandler (state_of (addUpdateHandler loaded_defaults 7)) 7)) = []"
    by code_simp
  let ?s2 = "state_of (addUpdateHandler (state_of (addUpdateHandler loaded_defaults 7)) 7)"
  let ?r = "run (map AddUpdateHandler [3, 5, 3]) (module_init Mobx5 [])"
  note th = addUpdateHandler_is_idempotent
      [OF r d v k, where h = 7 and hs = "[3, 5, 3]" and mobx = Mobx5 and base = "[]",
       unfolded Let_def]
  have a: "fromStore ?s2 (JObj ?obj) =
        Returns (?s2\<lparr>this := assign_each (Object_keys ?obj) ?obj (this ?s2),
                        invoked := invoked ?s2 @ (if (7::nat) \<in> set [] then [] else [] @ [7])\<rparr>)"
    by (rule th [THEN conjunct1, THEN conjunct2, THEN conjunct2, THEN conjunct2])
  have b: "fromStore ?r (JObj ?obj) =
        Returns (?r\<lparr>this := assign_each (Object_keys ?obj) ?obj (this ?r),
                       invoked := rev (remdups (rev [3, 5, 3]))\<rparr>)"
    by (rule th [THEN conjunct2])
  have "invoked (state_of (fromStore ?s2 (JObj ?obj))) = [7]"
    unfolding a using i by simp
  moreover have "invoked (state_of (fromStore ?r (JObj ?obj))) = [3, 5]"
    unfolding b by simp
  ultimately show ?thesis
    unfolding scenario_B_complete_def by blast
qed

text \<open>
  C8 as stated fails for a successful \<^verbatim>\<open>fromStore\<close> whose map has a key
  \<^verbatim>\<open>updateHandlers\<close>: the assignment loop replaces the registry by the value of the map
  before the handlers are called, and the handler registered twice is not called at all.
\<close>

theorem registry_overwritten_counterexample:
  "valid (rtv_check map_with_updateHandlers)
   \<and> fromStore (state_of (addUpdateHandler (state_of (addUpdateHandler loaded_defaults 7)) 7))
        map_with_updateHandlers
       = Returns
          \<lparr>defaultSavePath = JNull,
           this = [(''updateHandlers'', JArr []), (''cloudUrl'', JNull),
                   (''username'', JNull), (''savePath'', JNull),
                   (''offline'', JBool False), (''addToNew'', JBool True)],
           logged = [], invoked = []\<rparr>"
  by code_simp

end
